theory Spec2Isabelle
  imports Main "HOL-Library.Sublist"
begin

section \<open>Data model of the gateway file handler\<close>

text \<open>
  The development follows \<^verbatim>\<open>core/corehttp/gateway_handler_unixfs_file.go\<close>, whose only
  function is \<^verbatim>\<open>serveFile\<close>. Everything \<^verbatim>\<open>serveFile\<close> calls lives outside that file
  (other files of the package, the Go standard library, third-party libraries); those
  callees are parameters of the model, collected in the record \<open>collaborators\<close>, except
  for the few standard-library calls whose effect on the response writer the properties
  depend on (\<^verbatim>\<open>Header().Set\<close>, \<^verbatim>\<open>WriteHeader\<close>, \<^verbatim>\<open>http.Error\<close>, \<^verbatim>\<open>strings.HasPrefix\<close>), which
  are written out.
\<close>

type_synonym byte = char

text \<open>Go's \<^verbatim>\<open>time.Time\<close> and \<^verbatim>\<open>time.Duration\<close>, both counted in nanoseconds.\<close>

type_synonym time = int

text \<open>A Go \<^verbatim>\<open>error\<close> value, known by the text its \<^verbatim>\<open>Error()\<close> method returns.\<close>

datatype error = Err string

fun Error :: "error \<Rightarrow> string" where
  "Error (Err msg) = msg"

text \<open>\<^verbatim>\<open>http.Header\<close>: a map from header names to their values.\<close>

type_synonym header = "string \<rightharpoonup> string list"

record request =
  reqMethod :: string
  reqHeader :: header
  reqURL :: string

text \<open>
  \<^verbatim>\<open>ipath.Path\<close> and \<^verbatim>\<open>ipath.Resolved\<close>: what \<^verbatim>\<open>serveFile\<close> reads of them is
  \<^verbatim>\<open>String()\<close>, \<^verbatim>\<open>Namespace()\<close> and \<^verbatim>\<open>Cid()\<close>.
\<close>

record path =
  pathString :: string
  pathNamespace :: string

record resolved = path +
  pathCid :: string

text \<open>
  \<^verbatim>\<open>files.File\<close>, the content source: whether its dynamic type is \<^verbatim>\<open>*files.Symlink\<close>,
  what \<^verbatim>\<open>Size()\<close> returns, the bytes a sequential read delivers from its start, and
  how many of them the open handle has delivered so far.
\<close>

record File =
  isSymlink :: bool
  sizeResult :: "error + int"
  contents :: "byte list"
  cursor :: nat

text \<open>\<^verbatim>\<open>Size()\<close> of the file: an \<^verbatim>\<open>int64\<close> or an error.\<close>

definition Size :: "File \<Rightarrow> error + int" where
  "Size f = sizeResult f"

text \<open>The origins of \<^verbatim>\<open>io.Seeker\<close>.\<close>

datatype whence = SeekStart | SeekCurrent | SeekEnd

text \<open>
  \<^verbatim>\<open>lazySeeker\<close>. \<^verbatim>\<open>serveFile\<close> builds it with the composite literal
  \<^verbatim>\<open>&lazySeeker{size: size, reader: file}\<close>; the struct is declared in another file of the
  package. The third field is the logical cursor of the specification's seekable stream
  (section 3), zero in a fresh value as every unnamed field of a Go composite literal is.
\<close>

record lazySeeker =
  size_l :: int
  reader :: File
  position :: int

text \<open>The composite literal of lines 40 to 43.\<close>

definition new_lazySeeker :: "int \<Rightarrow> File \<Rightarrow> lazySeeker" where
  "new_lazySeeker sz f = \<lparr>size_l = sz, reader = f, position = 0\<rparr>"

text \<open>
  The \<^verbatim>\<open>http.ResponseWriter\<close>: its header map, the status code of the first
  \<^verbatim>\<open>WriteHeader\<close> (none before), the body written so far, and whether it has been wrapped
  in \<^verbatim>\<open>statusResponseWriter\<close> (line 83; the wrapper embeds the writer, so headers and
  body are the wrapped writer's own).
\<close>

record responseWriter =
  header :: header
  statusCode :: "nat option"
  body :: "byte list"
  statusFixup :: bool

subsection \<open>Standard-library calls on the writer\<close>

text \<open>\<^verbatim>\<open>w.Header().Set(key, value)\<close> replaces whatever values the key had.\<close>

definition Header_Set :: "responseWriter \<Rightarrow> string \<Rightarrow> string \<Rightarrow> responseWriter" where
  "Header_Set w k v = w\<lparr>header := (header w)(k \<mapsto> [v])\<rparr>"

text \<open>\<^verbatim>\<open>w.WriteHeader(code)\<close>: the first call fixes the status, later calls are ignored.\<close>

definition WriteHeader :: "responseWriter \<Rightarrow> nat \<Rightarrow> responseWriter" where
  "WriteHeader w code = (if statusCode w = None then w\<lparr>statusCode := Some code\<rparr> else w)"

text \<open>
  \<^verbatim>\<open>http.Error(w, msg, code)\<close>, as in the Go releases this code was written for: it sets
  \<^verbatim>\<open>Content-Type\<close> and \<^verbatim>\<open>X-Content-Type-Options\<close>, leaves every other header alone,
  writes the status line, then prints the message followed by a newline.
\<close>

definition http_Error :: "responseWriter \<Rightarrow> string \<Rightarrow> nat \<Rightarrow> responseWriter" where
  "http_Error w msg code =
     (let w1 = Header_Set w ''Content-Type'' ''text/plain; charset=utf-8'';
          w2 = Header_Set w1 ''X-Content-Type-Options'' ''nosniff'';
          w3 = WriteHeader w2 code
      in w3\<lparr>body := body w3 @ msg @ [CHR 0x0A]\<rparr>)"

definition StatusBadGateway :: nat where
  "StatusBadGateway = 502"

definition StatusInternalServerError :: nat where
  "StatusInternalServerError = 500"

subsection \<open>The callees of serveFile that are parameters\<close>

text \<open>
  \<^item> \<open>addCacheControlHeaders\<close> and \<open>addContentDispositionHeader\<close>: other files of the
    package. The specification (section 6) gives their interface: each sets headers on
    the writer and returns a value (the modification time, the display name), so each is
    a function on the header map.
  \<^item> \<open>Ext\<close> is \<^verbatim>\<open>path.Ext\<close>, \<open>TypeByExtension\<close> is \<^verbatim>\<open>mime.TypeByExtension\<close> (the
    system registry), \<open>DetectReader\<close> is \<^verbatim>\<open>mimetype.DetectReader\<close> followed by
    \<^verbatim>\<open>String()\<close> on its result; it reads from the seeker it is given.
  \<^item> \<open>Seek\<close> is the \<^verbatim>\<open>Seek\<close> method of \<^verbatim>\<open>lazySeeker\<close>.
  \<^item> \<open>ServeContent\<close> is the package's range responder; it returns the writer and the
    seeker as it leaves them, and its three results (status, whether data was sent,
    error).
  \<^item> \<open>now\<close> is the clock \<^verbatim>\<open>time.Since\<close> reads.
\<close>

record collaborators =
  addCacheControlHeaders :: "header \<Rightarrow> request \<Rightarrow> path \<Rightarrow> string \<Rightarrow> header \<times> time"
  addContentDispositionHeader :: "header \<Rightarrow> request \<Rightarrow> path \<Rightarrow> header \<times> string"
  Ext :: "string \<Rightarrow> string"
  TypeByExtension :: "string \<Rightarrow> string"
  DetectReader :: "lazySeeker \<Rightarrow> (error + string) \<times> lazySeeker"
  Seek :: "lazySeeker \<Rightarrow> int \<Rightarrow> whence \<Rightarrow> (error + int) \<times> lazySeeker"
  ServeContent :: "responseWriter \<Rightarrow> request \<Rightarrow> string \<Rightarrow> time \<Rightarrow> lazySeeker
                     \<Rightarrow> responseWriter \<times> lazySeeker \<times> (nat \<times> bool \<times> error option)"
  now :: time

subsection \<open>What a run of serveFile leaves behind\<close>

text \<open>
  One event per call \<^verbatim>\<open>serveFile\<close> makes to the outside, in program order, with the
  arguments the properties speak about. \<open>Call_ServeContent\<close> carries the writer, name,
  modification time and seeker handed to the responder, \<open>Ret_ServeContent\<close> the status
  and the data-sent flag it returned; \<open>Observe\<close> is one observation of the latency
  metric: the label and the time elapsed since \<open>begin\<close>, kept as the duration that
  \<^verbatim>\<open>time.Since\<close> returns (the conversion to floating-point seconds is left out).
\<close>

datatype event =
    Span_Start string
  | Call_addCacheControlHeaders
  | Call_addContentDispositionHeader
  | Call_Size
  | New_lazySeeker lazySeeker
  | Call_TypeByExtension string
  | Call_DetectReader lazySeeker
  | Call_Seek int whence
  | Call_http_Error string nat
  | Call_ServeContent responseWriter string time lazySeeker
  | Ret_ServeContent nat bool
  | Observe string time
  | Span_End

record outcome =
  writer :: responseWriter
  events :: "event list"

section \<open>serveFile\<close>

text \<open>
  Lines 78 to 93, which the three ways of fixing \<open>ctype\<close> run into: set the header, wrap
  the writer, delegate to the responder, observe the metric when data was sent. \<open>es\<close>
  are the events so far.
\<close>

definition serveFile_respond ::
  "collaborators \<Rightarrow> responseWriter \<Rightarrow> request \<Rightarrow> path \<Rightarrow> time \<Rightarrow> string \<Rightarrow> time
     \<Rightarrow> lazySeeker \<Rightarrow> string \<Rightarrow> event list \<Rightarrow> outcome" where
  "serveFile_respond i w r contentPath begin name modtime content ctype es =
     (let w1 = Header_Set w ''Content-Type'' ctype;
          w2 = w1\<lparr>statusFixup := True\<rparr>;
          (w3, content', status, dataSent, err) = ServeContent i w2 r name modtime content;
          es1 = es @ [Call_ServeContent w2 name modtime content, Ret_ServeContent status dataSent]
      in if dataSent
         then \<lparr>writer = w3,
               events = es1 @ [Observe (pathNamespace contentPath) (now i - begin), Span_End]\<rparr>
         else \<lparr>writer = w3, events = es1 @ [Span_End]\<rparr>)"

text \<open>Lines 74 to 76: the parameters of an HTML type are dropped.\<close>

definition stripHTMLParams :: "string \<Rightarrow> string" where
  "stripHTMLParams ctype = (if prefix ''text/html;'' ctype then ''text/html'' else ctype)"

definition serveFile ::
  "collaborators \<Rightarrow> responseWriter \<Rightarrow> request \<Rightarrow> resolved \<Rightarrow> path \<Rightarrow> File \<Rightarrow> time \<Rightarrow> outcome" where
  "serveFile i w r resolvedPath contentPath file begin =
     (let (h1, modtime) = addCacheControlHeaders i (header w) r contentPath (pathCid resolvedPath);
          (h2, name) = addContentDispositionHeader i h1 r contentPath;
          w' = w\<lparr>header := h2\<rparr>;
          es = [Span_Start (pathString resolvedPath), Call_addCacheControlHeaders,
                Call_addContentDispositionHeader, Call_Size]
      in case Size file of
           Inl err \<Rightarrow>
             \<lparr>writer = http_Error w' ''cannot serve files with unknown sizes'' StatusBadGateway,
              events = es @ [Call_http_Error ''cannot serve files with unknown sizes'' StatusBadGateway,
                             Span_End]\<rparr>
         | Inr sz \<Rightarrow>
             (let content = new_lazySeeker sz file;
                  es = es @ [New_lazySeeker content]
              in if isSymlink file
                 then serveFile_respond i w' r contentPath begin name modtime content
                        ''inode/symlink'' es
                 else
                   (let ctype = TypeByExtension i (Ext i name);
                        es = es @ [Call_TypeByExtension (Ext i name)]
                    in if ctype = ''''
                       then
                         (case DetectReader i content of
                            (Inl err, content1) \<Rightarrow>
                              (let msg = ''cannot detect content-type: '' @ Error err
                               in \<lparr>writer = http_Error w' msg StatusInternalServerError,
                                   events = es @ [Call_DetectReader content,
                                                  Call_http_Error msg StatusInternalServerError,
                                                  Span_End]\<rparr>)
                          | (Inr mimeType, content1) \<Rightarrow>
                              (case Seek i content1 0 SeekStart of
                                 (Inl err, content2) \<Rightarrow>
                                   \<lparr>writer = http_Error w' ''seeker can't seek''
                                               StatusInternalServerError,
                                    events = es @ [Call_DetectReader content, Call_Seek 0 SeekStart,
                                                   Call_http_Error ''seeker can't seek''
                                                     StatusInternalServerError,
                                                   Span_End]\<rparr>
                               | (Inr off, content2) \<Rightarrow>
                                   serveFile_respond i w' r contentPath begin name modtime content2
                                     (stripHTMLParams mimeType)
                                     (es @ [Call_DetectReader content, Call_Seek 0 SeekStart])))
                       else serveFile_respond i w' r contentPath begin name modtime content
                              (stripHTMLParams ctype) es)))"

subsection \<open>Reading a run\<close>

fun is_Observe :: "event \<Rightarrow> bool" where
  "is_Observe (Observe label d) = True"
| "is_Observe e = False"

fun is_http_Error :: "event \<Rightarrow> bool" where
  "is_http_Error (Call_http_Error msg code) = True"
| "is_http_Error e = False"

fun reports_dataSent :: "event \<Rightarrow> bool" where
  "reports_dataSent (Ret_ServeContent status sent) = sent"
| "reports_dataSent e = False"

fun is_DetectReader :: "event \<Rightarrow> bool" where
  "is_DetectReader (Call_DetectReader content) = True"
| "is_DetectReader e = False"

fun is_Seek :: "event \<Rightarrow> bool" where
  "is_Seek (Call_Seek off wh) = True"
| "is_Seek e = False"

fun is_TypeByExtension :: "event \<Rightarrow> bool" where
  "is_TypeByExtension (Call_TypeByExtension e) = True"
| "is_TypeByExtension e = False"

fun is_New_lazySeeker :: "event \<Rightarrow> bool" where
  "is_New_lazySeeker (New_lazySeeker content) = True"
| "is_New_lazySeeker e = False"

text \<open>The arguments of the responder calls of a run, in order.\<close>

fun handed :: "event list \<Rightarrow> (responseWriter \<times> string \<times> time \<times> lazySeeker) list" where
  "handed [] = []"
| "handed (Call_ServeContent w name modtime content # es) = (w, name, modtime, content) # handed es"
| "handed (e # es) = handed es"

text \<open>
  The \<^verbatim>\<open>Content-Type\<close> header of the writers handed to the responder, and the seekers
  handed to it.
\<close>

definition handed_content_types :: "event list \<Rightarrow> string list option list" where
  "handed_content_types es =
     map (\<lambda>(w', name, modtime, content). header w' ''Content-Type'') (handed es)"

definition handed_seekers :: "event list \<Rightarrow> lazySeeker list" where
  "handed_seekers es = map (\<lambda>(w', name, modtime, content). content) (handed es)"

text \<open>
  The writers the responder gave back for the calls of a run (the response as it leaves
  \<^verbatim>\<open>ServeContent\<close>), and whether each of them still carries the \<^verbatim>\<open>Content-Type\<close> it was
  handed.
\<close>

definition returned_writers :: "collaborators \<Rightarrow> request \<Rightarrow> event list \<Rightarrow> responseWriter list" where
  "returned_writers i r es =
     map (\<lambda>(w', name, modtime, content). fst (ServeContent i w' r name modtime content))
       (handed es)"

definition Content_Type_kept :: "collaborators \<Rightarrow> request \<Rightarrow> event list \<Rightarrow> bool" where
  "Content_Type_kept i r es =
     list_all (\<lambda>(w', name, modtime, content).
                 header (fst (ServeContent i w' r name modtime content)) ''Content-Type''
                   = header w' ''Content-Type'')
       (handed es)"

text \<open>
  Reading the results of the responder: whether it answered with a given status, and
  whether it raised the data-sent flag only together with a 2xx status.
\<close>

fun answered :: "nat \<Rightarrow> event \<Rightarrow> bool" where
  "answered code (Ret_ServeContent status sent) = (status = code)"
| "answered code e = False"

fun flag_only_on_2xx :: "event \<Rightarrow> bool" where
  "flag_only_on_2xx (Ret_ServeContent status sent) = (sent \<longrightarrow> status div 100 = 2)"
| "flag_only_on_2xx e = True"

fun is_Ret_ServeContent :: "event \<Rightarrow> bool" where
  "is_Ret_ServeContent (Ret_ServeContent status sent) = True"
| "is_Ret_ServeContent e = False"

text \<open>
  What lines 27 to 30 compute before the size is asked for: the modification time that
  \<^verbatim>\<open>addCacheControlHeaders\<close> returns, the name that \<^verbatim>\<open>addContentDispositionHeader\<close>
  returns, and the writer with the headers both have set; \<open>prelude\<close> are the events up
  to the size query.
\<close>

definition modtime_of :: "collaborators \<Rightarrow> responseWriter \<Rightarrow> request \<Rightarrow> resolved \<Rightarrow> path \<Rightarrow> time" where
  "modtime_of i w r resolvedPath contentPath =
     snd (addCacheControlHeaders i (header w) r contentPath (pathCid resolvedPath))"

definition name_of :: "collaborators \<Rightarrow> responseWriter \<Rightarrow> request \<Rightarrow> resolved \<Rightarrow> path \<Rightarrow> string" where
  "name_of i w r resolvedPath contentPath =
     snd (addContentDispositionHeader i
            (fst (addCacheControlHeaders i (header w) r contentPath (pathCid resolvedPath)))
            r contentPath)"

definition prepared :: "collaborators \<Rightarrow> responseWriter \<Rightarrow> request \<Rightarrow> resolved \<Rightarrow> path \<Rightarrow> responseWriter" where
  "prepared i w r resolvedPath contentPath =
     w\<lparr>header := fst (addContentDispositionHeader i
            (fst (addCacheControlHeaders i (header w) r contentPath (pathCid resolvedPath)))
            r contentPath)\<rparr>"

definition prelude :: "resolved \<Rightarrow> event list" where
  "prelude resolvedPath =
     [Span_Start (pathString resolvedPath), Call_addCacheControlHeaders,
      Call_addContentDispositionHeader, Call_Size]"

text \<open>
  The writer as lines 80 and 83 leave it for the responder, and the two results of the
  responder that \<^verbatim>\<open>serveFile\<close> looks at or could look at.
\<close>

definition handed_writer :: "responseWriter \<Rightarrow> string \<Rightarrow> responseWriter" where
  "handed_writer w ctype = (Header_Set w ''Content-Type'' ctype)\<lparr>statusFixup := True\<rparr>"

definition status_of ::
  "collaborators \<Rightarrow> responseWriter \<Rightarrow> request \<Rightarrow> string \<Rightarrow> time \<Rightarrow> lazySeeker \<Rightarrow> nat" where
  "status_of i w r name modtime content =
     fst (snd (snd (ServeContent i w r name modtime content)))"

definition dataSent_of ::
  "collaborators \<Rightarrow> responseWriter \<Rightarrow> request \<Rightarrow> string \<Rightarrow> time \<Rightarrow> lazySeeker \<Rightarrow> bool" where
  "dataSent_of i w r name modtime content =
     fst (snd (snd (snd (ServeContent i w r name modtime content))))"

section \<open>The seekable adapter\<close>

text \<open>
  The methods \<^verbatim>\<open>Seek\<close> and \<^verbatim>\<open>Read\<close> of \<^verbatim>\<open>lazySeeker\<close> are defined in another file of
  the package, so the definitions of this section follow sections 3 and 4.1 of the
  specification, which describe the adapter over a content source that offers only a
  sequential read from its current position and a fresh read from its start.
\<close>

text \<open>
  Modelled from the spec: the sequential read of the content source, missing with the
  source's implementation (section 3: ``sequential read of bytes from current position'').
  Up to \<open>n\<close> bytes are delivered from where the open handle stands, and the handle moves
  past them.
\<close>

definition source_read :: "File \<Rightarrow> nat \<Rightarrow> byte list \<times> File" where
  "source_read f n =
     (let bs = take n (drop (cursor f) (contents f))
      in (bs, f\<lparr>cursor := cursor f + length bs\<rparr>))"

text \<open>
  Modelled from the spec: reopening the content source, missing with the source's
  implementation (section 4.1: ``discard the existing source cursor and obtain a fresh
  read of the ContentSource from its start'').
\<close>

definition source_restart :: "File \<Rightarrow> File" where
  "source_restart f = f\<lparr>cursor := 0\<rparr>"

text \<open>
  Modelled from the spec: the error of a seek, missing with \<^verbatim>\<open>lazySeeker.Seek\<close>
  (section 4.1: ``fails with InvalidOffset'').
\<close>

definition InvalidOffset :: error where
  "InvalidOffset = Err ''invalid offset''"

text \<open>
  Modelled from the spec: the target of a seek, missing with \<^verbatim>\<open>lazySeeker.Seek\<close>
  (section 4.1: ``translates origin (start/current/end) plus known size into an absolute
  target offset'').
\<close>

definition seek_target :: "lazySeeker \<Rightarrow> int \<Rightarrow> whence \<Rightarrow> int" where
  "seek_target s offset origin =
     (case origin of
        SeekStart \<Rightarrow> offset
      | SeekCurrent \<Rightarrow> position s + offset
      | SeekEnd \<Rightarrow> size_l s + offset)"

text \<open>
  Modelled from the spec: discarding forward, missing with \<^verbatim>\<open>lazySeeker.Seek\<close>
  (section 4.1: ``discarding (reading and dropping) bytes from the underlying source'').
\<close>

definition discard :: "lazySeeker \<Rightarrow> nat \<Rightarrow> lazySeeker" where
  "discard s n = s\<lparr>reader := snd (source_read (reader s) n)\<rparr>"

text \<open>
  Modelled from the spec: \<^verbatim>\<open>lazySeeker.Seek\<close>, defined outside \<^verbatim>\<open>gateway_handler_unixfs_file.go\<close>.
  Section 4.1: the seek fails with \<^verbatim>\<open>InvalidOffset\<close> if the target is negative or exceeds
  size + epsilon (the specification leaves epsilon open; it is a parameter here); a target
  ahead of or equal to the current logical position is satisfied by discarding bytes of the
  source up to the target; for a target behind it the adapter resets the source and
  discards forward to the target.
\<close>

definition lazySeeker_Seek :: "nat \<Rightarrow> lazySeeker \<Rightarrow> int \<Rightarrow> whence \<Rightarrow> (error + int) \<times> lazySeeker" where
  "lazySeeker_Seek epsilon s offset origin =
     (let target = seek_target s offset origin
      in if target < 0 \<or> size_l s + int epsilon < target then (Inl InvalidOffset, s)
         else if position s \<le> target
         then (Inr target, (discard s (nat (target - position s)))\<lparr>position := target\<rparr>)
         else (Inr target,
               (discard (s\<lparr>reader := source_restart (reader s)\<rparr>) (nat target))\<lparr>position := target\<rparr>))"

text \<open>
  Modelled from the spec: \<^verbatim>\<open>lazySeeker.Read\<close>, defined outside \<^verbatim>\<open>gateway_handler_unixfs_file.go\<close>.
  Section 3: \<^verbatim>\<open>read(buffer) -> bytes_read\<close> on a logical window over the source whose
  cursor stays within [0, size]: up to \<open>n\<close> bytes, and no further than the size, are read
  from the source, and the cursor moves past them.
\<close>

definition lazySeeker_Read :: "lazySeeker \<Rightarrow> nat \<Rightarrow> byte list \<times> lazySeeker" where
  "lazySeeker_Read s n =
     (let (bs, f) = source_read (reader s) (min n (nat (size_l s - position s)))
      in (bs, s\<lparr>reader := f, position := position s + int (length bs)\<rparr>))"

text \<open>The states the adapter reaches under any sequence of seeks and reads.\<close>

datatype operation = Do_Seek int whence | Do_Read nat

fun perform :: "nat \<Rightarrow> lazySeeker \<Rightarrow> operation \<Rightarrow> lazySeeker" where
  "perform epsilon s (Do_Seek offset origin) = snd (lazySeeker_Seek epsilon s offset origin)"
| "perform epsilon s (Do_Read n) = snd (lazySeeker_Read s n)"

definition perform_all :: "nat \<Rightarrow> lazySeeker \<Rightarrow> operation list \<Rightarrow> lazySeeker" where
  "perform_all epsilon s ops = foldl (perform epsilon) s ops"

text \<open>
  The source's cursor stands where the logical position is (or at the end of the content,
  for a position beyond it), and the size is the length of the content.
\<close>

definition in_step :: "lazySeeker \<Rightarrow> bool" where
  "in_step s =
     (size_l s = int (length (contents (reader s)))
      \<and> 0 \<le> position s
      \<and> cursor (reader s) = min (nat (position s)) (length (contents (reader s))))"

section \<open>Concrete collaborators\<close>

text \<open>
  Instances of the parameters, for running \<^verbatim>\<open>serveFile\<close> on concrete requests.
  \<open>path_Ext\<close> scans back from the end of the name to the last dot of its last
  slash-separated element, as \<^verbatim>\<open>path.Ext\<close> does.
\<close>

fun ext_scan :: "string \<Rightarrow> string \<Rightarrow> string" where
  "ext_scan [] acc = ''''"
| "ext_scan (c # cs) acc =
     (if c = CHR ''/'' then ''''
      else if c = CHR ''.'' then c # acc
      else ext_scan cs (c # acc))"

definition path_Ext :: "string \<Rightarrow> string" where
  "path_Ext p = ext_scan (rev p) []"

text \<open>A registry with two entries; \<^verbatim>\<open>.html\<close> maps as in Go's built-in table.\<close>

definition registry :: "string \<Rightarrow> string" where
  "registry e =
     (if e = ''.png'' then ''image/png''
      else if e = ''.html'' then ''text/html; charset=utf-8''
      else '''')"

text \<open>A detector that reads a bounded prefix through the seeker and knows two signatures.\<close>

definition sniff :: "byte list \<Rightarrow> string" where
  "sniff bs =
     (if prefix [CHR 0xFF, CHR 0xD8, CHR 0xFF] bs then ''image/jpeg''
      else if prefix ''<html'' bs then ''text/html; charset=utf-8''
      else ''application/octet-stream'')"

definition sniffing_DetectReader :: "lazySeeker \<Rightarrow> (error + string) \<times> lazySeeker" where
  "sniffing_DetectReader content =
     (let (bs, content') = lazySeeker_Read content 3072 in (Inr (sniff bs), content'))"

definition failing_DetectReader :: "lazySeeker \<Rightarrow> (error + string) \<times> lazySeeker" where
  "failing_DetectReader content = (Inl (Err ''unexpected EOF''), content)"

definition failing_Seek :: "lazySeeker \<Rightarrow> int \<Rightarrow> whence \<Rightarrow> (error + int) \<times> lazySeeker" where
  "failing_Seek content offset origin = (Inl (Err ''closed''), content)"

text \<open>
  What a responder returns after writing a status without error: the writer, the seeker,
  the status, and the data-sent flag, raised for every 2xx status.
\<close>

definition replied ::
  "responseWriter \<Rightarrow> lazySeeker \<Rightarrow> nat
     \<Rightarrow> responseWriter \<times> lazySeeker \<times> (nat \<times> bool \<times> error option)" where
  "replied w content code = (w, content, code, code div 100 = 2, None)"

text \<open>
  A responder without range support. It answers a matching \<^verbatim>\<open>If-None-Match\<close> with 304,
  without \<^verbatim>\<open>Content-Type\<close> and without body, a \<^verbatim>\<open>HEAD\<close> with 200 and headers only, and
  anything else with 200 and the whole body read through the seeker.
\<close>

definition plain_ServeContent ::
  "responseWriter \<Rightarrow> request \<Rightarrow> string \<Rightarrow> time \<Rightarrow> lazySeeker
     \<Rightarrow> responseWriter \<times> lazySeeker \<times> (nat \<times> bool \<times> error option)" where
  "plain_ServeContent w r name modtime content =
     (if header w ''Etag'' \<noteq> None \<and> reqHeader r ''If-None-Match'' = header w ''Etag''
      then replied (WriteHeader (w\<lparr>header := (header w)(''Content-Type'' := None)\<rparr>) 304)
             content 304
      else if reqMethod r = ''HEAD''
      then replied (WriteHeader w 200) content 200
      else (let (bs, content') = lazySeeker_Read content (nat (size_l content));
                w' = WriteHeader w 200
            in replied (w'\<lparr>body := body w' @ bs\<rparr>) content' 200))"

text \<open>A responder that finds the requested range unsatisfiable and answers 416.\<close>

definition unsatisfiable_ServeContent ::
  "responseWriter \<Rightarrow> request \<Rightarrow> string \<Rightarrow> time \<Rightarrow> lazySeeker
     \<Rightarrow> responseWriter \<times> lazySeeker \<times> (nat \<times> bool \<times> error option)" where
  "unsatisfiable_ServeContent w r name modtime content =
     replied (http_Error w ''invalid range: failed to overlap'' 416) content 416"

definition gateway :: collaborators where
  "gateway =
     \<lparr>addCacheControlHeaders =
        (\<lambda>h r p cid. (h(''Etag'' \<mapsto> [cid], ''Cache-Control'' \<mapsto> [''public, max-age=29030400, immutable'']), 0)),
      addContentDispositionHeader =
        (\<lambda>h r p. (h, rev (takeWhile (\<lambda>c. c \<noteq> CHR ''/'') (rev (pathString p))))),
      Ext = path_Ext,
      TypeByExtension = registry,
      DetectReader = sniffing_DetectReader,
      Seek = lazySeeker_Seek 0,
      ServeContent = plain_ServeContent,
      now = 1700\<rparr>"

definition fresh_writer :: responseWriter where
  "fresh_writer = \<lparr>header = Map.empty, statusCode = None, body = [], statusFixup = False\<rparr>"

definition get_request :: request where
  "get_request = \<lparr>reqMethod = ''GET'', reqHeader = Map.empty, reqURL = ''/ipfs/QmFoo/a''\<rparr>"

definition content_path :: "string \<Rightarrow> path" where
  "content_path name = \<lparr>pathString = ''/ipfs/QmFoo/'' @ name, pathNamespace = ''ipfs''\<rparr>"

definition resolved_path :: resolved where
  "resolved_path = \<lparr>pathString = ''/ipfs/QmBar'', pathNamespace = ''ipfs'', pathCid = ''QmBar''\<rparr>"

definition regular_file :: "byte list \<Rightarrow> File" where
  "regular_file bs =
     \<lparr>isSymlink = False, sizeResult = Inr (int (length bs)), contents = bs, cursor = 0\<rparr>"

definition unsized_file :: "byte list \<Rightarrow> File" where
  "unsized_file bs = (regular_file bs)\<lparr>sizeResult := Inl (Err ''unknown size'')\<rparr>"

definition symlink_file :: "byte list \<Rightarrow> File" where
  "symlink_file bs = (regular_file bs)\<lparr>isSymlink := True\<rparr>"

definition jpeg_bytes :: "byte list" where
  "jpeg_bytes = [CHR 0xFF, CHR 0xD8, CHR 0xFF, CHR 0xE0]"

definition conditional_request :: request where
  "conditional_request = get_request\<lparr>reqHeader := [''If-None-Match'' \<mapsto> [''QmBar'']]\<rparr>"

definition head_request :: request where
  "head_request = get_request\<lparr>reqMethod := ''HEAD''\<rparr>"

section \<open>The paths through serveFile\<close>

lemmas prep_defs = modtime_of_def prepared_def name_of_def prelude_def

lemma respond_events:
  "events (serveFile_respond i w r cp begin name modtime content ctype es) =
     es @ [Call_ServeContent (handed_writer w ctype) name modtime content,
           Ret_ServeContent (status_of i (handed_writer w ctype) r name modtime content)
             (dataSent_of i (handed_writer w ctype) r name modtime content)]
        @ (if dataSent_of i (handed_writer w ctype) r name modtime content
           then [Observe (pathNamespace cp) (now i - begin)] else [])
        @ [Span_End]"
  by (simp add: serveFile_respond_def Let_def split_def handed_writer_def dataSent_of_def
        status_of_def)

lemma respond_writer:
  "writer (serveFile_respond i w r cp begin name modtime content ctype es) =
     fst (ServeContent i (handed_writer w ctype) r name modtime content)"
  by (simp add: serveFile_respond_def Let_def split_def handed_writer_def)

lemma serveFile_size_error:
  assumes "Size f = Inl err"
  shows "serveFile i w r rp cp f begin =
     \<lparr>writer = http_Error (prepared i w r rp cp) ''cannot serve files with unknown sizes'' 502,
      events = prelude rp @ [Call_http_Error ''cannot serve files with unknown sizes'' 502,
                             Span_End]\<rparr>"
  using assms by (simp add: serveFile_def Let_def split_def prep_defs StatusBadGateway_def)

lemma serveFile_symlink:
  assumes "Size f = Inr sz" "isSymlink f"
  shows "serveFile i w r rp cp f begin =
     serveFile_respond i (prepared i w r rp cp) r cp begin (name_of i w r rp cp)
       (modtime_of i w r rp cp) (new_lazySeeker sz f) ''inode/symlink''
       (prelude rp @ [New_lazySeeker (new_lazySeeker sz f)])"
  using assms by (simp add: serveFile_def Let_def split_def prep_defs)

lemma serveFile_by_extension:
  assumes "Size f = Inr sz" "\<not> isSymlink f"
    "TypeByExtension i (Ext i (name_of i w r rp cp)) \<noteq> ''''"
  shows "serveFile i w r rp cp f begin =
     serveFile_respond i (prepared i w r rp cp) r cp begin (name_of i w r rp cp)
       (modtime_of i w r rp cp) (new_lazySeeker sz f)
       (stripHTMLParams (TypeByExtension i (Ext i (name_of i w r rp cp))))
       (prelude rp @ [New_lazySeeker (new_lazySeeker sz f),
                      Call_TypeByExtension (Ext i (name_of i w r rp cp))])"
  using assms by (simp add: serveFile_def Let_def split_def prep_defs)

lemma serveFile_detect_error:
  assumes "Size f = Inr sz" "\<not> isSymlink f"
    "TypeByExtension i (Ext i (name_of i w r rp cp)) = ''''"
    "fst (DetectReader i (new_lazySeeker sz f)) = Inl err"
  shows "serveFile i w r rp cp f begin =
     \<lparr>writer = http_Error (prepared i w r rp cp)
                 (''cannot detect content-type: '' @ Error err) 500,
      events = prelude rp @ [New_lazySeeker (new_lazySeeker sz f),
                 Call_TypeByExtension (Ext i (name_of i w r rp cp)),
                 Call_DetectReader (new_lazySeeker sz f),
                 Call_http_Error (''cannot detect content-type: '' @ Error err) 500,
                 Span_End]\<rparr>"
  using assms
  by (simp add: serveFile_def Let_def split_def prep_defs StatusInternalServerError_def)

lemma serveFile_seek_error:
  assumes "Size f = Inr sz" "\<not> isSymlink f"
    "TypeByExtension i (Ext i (name_of i w r rp cp)) = ''''"
    "fst (DetectReader i (new_lazySeeker sz f)) = Inr mimeType"
    "fst (Seek i (snd (DetectReader i (new_lazySeeker sz f))) 0 SeekStart) = Inl err"
  shows "serveFile i w r rp cp f begin =
     \<lparr>writer = http_Error (prepared i w r rp cp) ''seeker can't seek'' 500,
      events = prelude rp @ [New_lazySeeker (new_lazySeeker sz f),
                 Call_TypeByExtension (Ext i (name_of i w r rp cp)),
                 Call_DetectReader (new_lazySeeker sz f), Call_Seek 0 SeekStart,
                 Call_http_Error ''seeker can't seek'' 500, Span_End]\<rparr>"
  using assms
  by (simp add: serveFile_def Let_def split_def prep_defs StatusInternalServerError_def)

lemma serveFile_sniffed:
  assumes "Size f = Inr sz" "\<not> isSymlink f"
    "TypeByExtension i (Ext i (name_of i w r rp cp)) = ''''"
    "fst (DetectReader i (new_lazySeeker sz f)) = Inr mimeType"
    "fst (Seek i (snd (DetectReader i (new_lazySeeker sz f))) 0 SeekStart) = Inr off"
  shows "serveFile i w r rp cp f begin =
     serveFile_respond i (prepared i w r rp cp) r cp begin (name_of i w r rp cp)
       (modtime_of i w r rp cp)
       (snd (Seek i (snd (DetectReader i (new_lazySeeker sz f))) 0 SeekStart))
       (stripHTMLParams mimeType)
       (prelude rp @ [New_lazySeeker (new_lazySeeker sz f),
                      Call_TypeByExtension (Ext i (name_of i w r rp cp)),
                      Call_DetectReader (new_lazySeeker sz f), Call_Seek 0 SeekStart])"
  using assms by (simp add: serveFile_def Let_def split_def prep_defs)

text \<open>Every run takes exactly one of the six paths.\<close>

lemma serveFile_paths:
  obtains
    (size_error) err where "Size f = Inl err"
  | (symlink) sz where "Size f = Inr sz" "isSymlink f"
  | (by_extension) sz where "Size f = Inr sz" "\<not> isSymlink f"
      "TypeByExtension i (Ext i (name_of i w r rp cp)) \<noteq> ''''"
  | (detect_error) sz err where "Size f = Inr sz" "\<not> isSymlink f"
      "TypeByExtension i (Ext i (name_of i w r rp cp)) = ''''"
      "fst (DetectReader i (new_lazySeeker sz f)) = Inl err"
  | (seek_error) sz mimeType err where "Size f = Inr sz" "\<not> isSymlink f"
      "TypeByExtension i (Ext i (name_of i w r rp cp)) = ''''"
      "fst (DetectReader i (new_lazySeeker sz f)) = Inr mimeType"
      "fst (Seek i (snd (DetectReader i (new_lazySeeker sz f))) 0 SeekStart) = Inl err"
  | (sniffed) sz mimeType off where "Size f = Inr sz" "\<not> isSymlink f"
      "TypeByExtension i (Ext i (name_of i w r rp cp)) = ''''"
      "fst (DetectReader i (new_lazySeeker sz f)) = Inr mimeType"
      "fst (Seek i (snd (DetectReader i (new_lazySeeker sz f))) 0 SeekStart) = Inr off"
proof (cases "Size f")
  case (Inl err)
  then show ?thesis by (rule size_error)
next
  case (Inr sz)
  note sz = this
  show ?thesis
  proof (cases "isSymlink f")
    case True
    with sz show ?thesis by (rule symlink)
  next
    case False
    note regular = this
    show ?thesis
    proof (cases "TypeByExtension i (Ext i (name_of i w r rp cp)) = ''''")
      case False
      with sz regular show ?thesis by (rule by_extension)
    next
      case True
      note unknown = this
      show ?thesis
      proof (cases "fst (DetectReader i (new_lazySeeker sz f))")
        case (Inl err)
        with sz regular unknown show ?thesis by (rule detect_error)
      next
        case (Inr mimeType)
        note detected = this
        show ?thesis
        proof (cases "fst (Seek i (snd (DetectReader i (new_lazySeeker sz f))) 0 SeekStart)")
          case (Inl err)
          with sz regular unknown detected show ?thesis by (rule seek_error)
        next
          case (Inr off)
          with sz regular unknown detected show ?thesis by (rule sniffed)
        qed
      qed
    qed
  qed
qed

text \<open>Unfolding the concrete collaborators, for evaluating concrete runs.\<close>

lemmas concrete_defs = gateway_def fresh_writer_def get_request_def resolved_path_def
  content_path_def regular_file_def unsized_file_def symlink_file_def conditional_request_def
  head_request_def jpeg_bytes_def path_Ext_def registry_def sniff_def sniffing_DetectReader_def
  failing_DetectReader_def failing_Seek_def replied_def plain_ServeContent_def
  unsatisfiable_ServeContent_def lazySeeker_Read_def
  lazySeeker_Seek_def source_read_def source_restart_def discard_def seek_target_def
  InvalidOffset_def Size_def new_lazySeeker_def WriteHeader_def Header_Set_def http_Error_def
  StatusBadGateway_def StatusInternalServerError_def stripHTMLParams_def


section \<open>Facts about the writer and the events\<close>

lemma handed_append: "handed (xs @ ys) = handed xs @ handed ys"
  by (induction xs rule: handed.induct) simp_all

lemmas handed_defs = handed_content_types_def handed_seekers_def

lemmas returned_defs = returned_writers_def Content_Type_kept_def

lemmas run_defs = serveFile_def serveFile_respond_def Let_def concrete_defs handed_defs

lemma handed_prelude [simp]: "handed (prelude rp) = []"
  by (simp add: prelude_def)

lemma prelude_filters [simp]:
  "filter is_Observe (prelude rp) = []"
  "filter is_http_Error (prelude rp) = []"
  "filter is_DetectReader (prelude rp) = []"
  "filter is_Seek (prelude rp) = []"
  "filter is_TypeByExtension (prelude rp) = []"
  "filter is_New_lazySeeker (prelude rp) = []"
  "filter is_Ret_ServeContent (prelude rp) = []"
  by (simp_all add: prelude_def)

lemma http_Error_status: "statusCode w = None \<Longrightarrow> statusCode (http_Error w msg code) = Some code"
  by (simp add: http_Error_def WriteHeader_def Header_Set_def Let_def)

lemma http_Error_body: "statusCode w = None \<Longrightarrow> body (http_Error w msg code) = body w @ msg @ [CHR 0x0A]"
  by (simp add: http_Error_def WriteHeader_def Header_Set_def Let_def)

lemma http_Error_header:
  "header (http_Error w msg code) =
     (header w)(''Content-Type'' \<mapsto> [''text/plain; charset=utf-8''],
                ''X-Content-Type-Options'' \<mapsto> [''nosniff''])"
  by (simp add: http_Error_def WriteHeader_def Header_Set_def Let_def)

lemma prepared_status [simp]: "statusCode (prepared i w r rp cp) = statusCode w"
  by (simp add: prepared_def)

lemma prepared_body [simp]: "body (prepared i w r rp cp) = body w"
  by (simp add: prepared_def)

lemma handed_writer_content_type [simp]:
  "header (handed_writer w ctype) ''Content-Type'' = Some [ctype]"
  by (simp add: handed_writer_def Header_Set_def)

lemma status_2xx:
  "(status::nat) div 100 = 2 \<Longrightarrow> status \<noteq> 304"
  "(status::nat) div 100 = 2 \<Longrightarrow> status \<noteq> 416"
  by auto


section \<open>The adapter keeps the source in step\<close>

lemma source_read_contents [simp]: "contents (snd (source_read f n)) = contents f"
  by (simp add: source_read_def Let_def)

lemma Seek_contents: "contents (reader (snd (lazySeeker_Seek e s off wh))) = contents (reader s)"
  by (simp add: lazySeeker_Seek_def Let_def discard_def source_restart_def)

lemma Seek_size: "size_l (snd (lazySeeker_Seek e s off wh)) = size_l s"
  by (simp add: lazySeeker_Seek_def Let_def discard_def)

lemma Read_contents: "contents (reader (snd (lazySeeker_Read s n))) = contents (reader s)"
  by (simp add: lazySeeker_Read_def Let_def split_def)

lemma Read_size: "size_l (snd (lazySeeker_Read s n)) = size_l s"
  by (simp add: lazySeeker_Read_def Let_def split_def)

lemma in_step_new:
  assumes "sz = int (length (contents f))" "cursor f = 0"
  shows "in_step (new_lazySeeker sz f)"
  using assms by (simp add: in_step_def new_lazySeeker_def)

lemma in_step_Seek:
  assumes "in_step s"
  shows "in_step (snd (lazySeeker_Seek e s off wh))"
proof -
  from assms have size: "size_l s = int (length (contents (reader s)))"
    and pos: "0 \<le> position s"
    and cur: "cursor (reader s) = min (nat (position s)) (length (contents (reader s)))"
    by (simp_all add: in_step_def)
  let ?t = "seek_target s off wh"
  consider (invalid) "?t < 0 \<or> size_l s + int e < ?t"
    | (forward) "\<not> (?t < 0 \<or> size_l s + int e < ?t)" "position s \<le> ?t"
    | (backward) "\<not> (?t < 0 \<or> size_l s + int e < ?t)" "\<not> position s \<le> ?t"
    by blast
  then show ?thesis
  proof cases
    case invalid
    then show ?thesis using assms by (simp add: lazySeeker_Seek_def Let_def)
  next
    case forward
    then have "cursor (reader s) + min (length (contents (reader s)) - cursor (reader s))
                 (nat (?t - position s)) = min (nat ?t) (length (contents (reader s)))"
      using pos cur by arith
    with forward size pos show ?thesis
      by (simp add: in_step_def lazySeeker_Seek_def Let_def discard_def source_read_def)
  next
    case backward
    with size pos show ?thesis
      by (simp add: in_step_def lazySeeker_Seek_def Let_def discard_def source_read_def
            source_restart_def min.commute)
  qed
qed

lemma in_step_Read:
  assumes "in_step s"
  shows "in_step (snd (lazySeeker_Read s n))"
  using assms
  by (auto simp add: in_step_def lazySeeker_Read_def Let_def split_def source_read_def min_def)

lemma in_step_perform: "in_step s \<Longrightarrow> in_step (perform e s x)"
  by (cases x) (simp_all add: in_step_Seek in_step_Read)

lemma perform_contents: "contents (reader (perform e s x)) = contents (reader s)"
  by (cases x) (simp_all add: Seek_contents Read_contents)

lemma perform_size: "size_l (perform e s x) = size_l s"
  by (cases x) (simp_all add: Seek_size Read_size)

lemma perform_all_keeps:
  "in_step s \<Longrightarrow> in_step (perform_all e s xs)
     \<and> contents (reader (perform_all e s xs)) = contents (reader s)
     \<and> size_l (perform_all e s xs) = size_l s"
  unfolding perform_all_def
  by (induction xs arbitrary: s) (simp_all add: in_step_perform perform_contents perform_size)

lemma Read_in_step:
  assumes "in_step s"
  shows "fst (lazySeeker_Read s n) = take n (drop (nat (position s)) (contents (reader s)))"
  using assms
  by (auto simp add: in_step_def lazySeeker_Read_def Let_def split_def source_read_def min_def)

lemma Read_position:
  assumes "in_step s" "position s \<le> size_l s"
  shows "position (snd (lazySeeker_Read s n)) = position s + int (min n (nat (size_l s - position s)))"
  using assms
  by (auto simp add: in_step_def lazySeeker_Read_def Let_def split_def source_read_def min_def)

lemma Seek_in_range:
  assumes "0 \<le> seek_target s off wh" "seek_target s off wh \<le> size_l s"
  shows "fst (lazySeeker_Seek e s off wh) = Inr (seek_target s off wh)
       \<and> position (snd (lazySeeker_Seek e s off wh)) = seek_target s off wh"
  using assms by (simp add: lazySeeker_Seek_def Let_def discard_def)

section \<open>Properties of serveFile\<close>

text \<open>
  C1, as amended. In every run of \<^verbatim>\<open>serveFile\<close> the responder is called at most once,
  the results recorded for it are what \<open>ServeContent\<close> returned on the arguments it was
  handed, and the latency metric is observed exactly once (with the namespace of the
  content path and the time elapsed since \<open>begin\<close>) if the responder raised its data-sent
  flag, and not at all otherwise. \<^verbatim>\<open>serveFile\<close> looks at that flag only, never at the
  status or at the method. So:
  \<^item> on the early error returns (502, 500) the responder is not called and no metric is
    observed;
  \<^item> if the responder raises the flag only together with a 2xx status, no metric is
    observed for an answer of 304 or of 416;
  \<^item> for a \<^verbatim>\<open>HEAD\<close> no metric is observed when the responder does not raise the flag,
    and one is observed when it does.
\<close>

theorem serveFile_metric_iff_dataSent:
  "(let es = events (serveFile i w r rp cp f begin) in
      length (handed es) \<le> 1
    \<and> filter is_Ret_ServeContent es
        = map (\<lambda>(w', name, modtime, content).
                 Ret_ServeContent (status_of i w' r name modtime content)
                   (dataSent_of i w' r name modtime content))
            (handed es)
    \<and> filter is_Observe es
        = (if list_ex reports_dataSent es
           then [Observe (pathNamespace cp) (now i - begin)] else [])
    \<and> (list_ex is_http_Error es \<longrightarrow> filter is_Observe es = [] \<and> handed es = [])
    \<and> (list_all flag_only_on_2xx es \<and> (list_ex (answered 304) es \<or> list_ex (answered 416) es)
         \<longrightarrow> filter is_Observe es = [])
    \<and> (reqMethod r = ''HEAD'' \<and> \<not> list_ex reports_dataSent es \<longrightarrow> filter is_Observe es = [])
    \<and> (reqMethod r = ''HEAD'' \<and> list_ex reports_dataSent es
         \<longrightarrow> filter is_Observe es = [Observe (pathNamespace cp) (now i - begin)]))"
proof (cases rule: serveFile_paths [where f = f and i = i and w = w and r = r and rp = rp and cp = cp])
  case (size_error err)
  then show ?thesis by (simp add: serveFile_size_error prelude_def)
next
  case (symlink sz)
  then show ?thesis by (simp add: serveFile_symlink respond_events prelude_def status_2xx)
next
  case (by_extension sz)
  then show ?thesis by (simp add: serveFile_by_extension respond_events prelude_def status_2xx)
next
  case (detect_error sz err)
  then show ?thesis by (simp add: serveFile_detect_error prelude_def)
next
  case (seek_error sz mimeType err)
  then show ?thesis by (simp add: serveFile_seek_error prelude_def)
next
  case (sniffed sz mimeType off)
  then show ?thesis by (simp add: serveFile_sniffed respond_events prelude_def status_2xx)
qed

text \<open>
  The concrete gateway on a plain \<^verbatim>\<open>GET\<close> (one observation), on a conditional request
  answered 304, with a responder that answers 416, and on a file of unknown size (no
  observation).
\<close>

theorem serveFile_metric_iff_dataSent_witness:
  "filter is_Observe (events (serveFile gateway fresh_writer get_request resolved_path
       (content_path ''photo.png'') (regular_file ''abc'') 1000)) = [Observe ''ipfs'' 700]
   \<and> list_ex (answered 304) (events (serveFile gateway fresh_writer conditional_request
       resolved_path (content_path ''photo.png'') (regular_file ''abc'') 1000))
   \<and> filter is_Observe (events (serveFile gateway fresh_writer conditional_request
       resolved_path (content_path ''photo.png'') (regular_file ''abc'') 1000)) = []
   \<and> list_ex (answered 416) (events (serveFile
       (gateway\<lparr>ServeContent := unsatisfiable_ServeContent\<rparr>) fresh_writer get_request
       resolved_path (content_path ''photo.png'') (regular_file ''abc'') 1000))
   \<and> filter is_Observe (events (serveFile
       (gateway\<lparr>ServeContent := unsatisfiable_ServeContent\<rparr>) fresh_writer get_request
       resolved_path (content_path ''photo.png'') (regular_file ''abc'') 1000)) = []
   \<and> list_ex is_http_Error (events (serveFile gateway fresh_writer get_request resolved_path
       (content_path ''photo.png'') (unsized_file ''abc'') 1000))
   \<and> filter is_Observe (events (serveFile gateway fresh_writer get_request resolved_path
       (content_path ''photo.png'') (unsized_file ''abc'') 1000)) = []"
proof -
  let ?u = "gateway\<lparr>ServeContent := unsatisfiable_ServeContent\<rparr>"
  have sent: "list_ex reports_dataSent (events (serveFile gateway fresh_writer get_request
      resolved_path (content_path ''photo.png'') (regular_file ''abc'') 1000))"
    by (simp add: run_defs)
  have not_modified: "list_all flag_only_on_2xx (events (serveFile gateway fresh_writer
      conditional_request resolved_path (content_path ''photo.png'') (regular_file ''abc'') 1000))"
    "list_ex (answered 304) (events (serveFile gateway fresh_writer
      conditional_request resolved_path (content_path ''photo.png'') (regular_file ''abc'') 1000))"
    by (simp_all add: run_defs)
  have unsatisfiable: "list_all flag_only_on_2xx (events (serveFile ?u fresh_writer
      get_request resolved_path (content_path ''photo.png'') (regular_file ''abc'') 1000))"
    "list_ex (answered 416) (events (serveFile ?u fresh_writer
      get_request resolved_path (content_path ''photo.png'') (regular_file ''abc'') 1000))"
    by (simp_all add: run_defs)
  have bad_gateway: "list_ex is_http_Error (events (serveFile gateway fresh_writer get_request
      resolved_path (content_path ''photo.png'') (unsized_file ''abc'') 1000))"
    by (simp add: run_defs)
  have ns: "pathNamespace (content_path ''photo.png'') = ''ipfs''" "now gateway = 1700"
    by (simp_all add: concrete_defs)
  from serveFile_metric_iff_dataSent [of gateway fresh_writer get_request resolved_path
      "content_path ''photo.png''" "regular_file ''abc''" 1000] sent ns
  have one: "filter is_Observe (events (serveFile gateway fresh_writer get_request resolved_path
       (content_path ''photo.png'') (regular_file ''abc'') 1000)) = [Observe ''ipfs'' 700]"
    by (simp add: Let_def)
  from serveFile_metric_iff_dataSent [of gateway fresh_writer conditional_request resolved_path
      "content_path ''photo.png''" "regular_file ''abc''" 1000] not_modified
  have two: "filter is_Observe (events (serveFile gateway fresh_writer conditional_request
       resolved_path (content_path ''photo.png'') (regular_file ''abc'') 1000)) = []"
    unfolding Let_def by blast
  from serveFile_metric_iff_dataSent [of ?u fresh_writer get_request resolved_path
      "content_path ''photo.png''" "regular_file ''abc''" 1000] unsatisfiable
  have three: "filter is_Observe (events (serveFile ?u fresh_writer get_request
       resolved_path (content_path ''photo.png'') (regular_file ''abc'') 1000)) = []"
    unfolding Let_def by blast
  from serveFile_metric_iff_dataSent [of gateway fresh_writer get_request resolved_path
      "content_path ''photo.png''" "unsized_file ''abc''" 1000] bad_gateway
  have four: "filter is_Observe (events (serveFile gateway fresh_writer get_request resolved_path
       (content_path ''photo.png'') (unsized_file ''abc'') 1000)) = []"
    unfolding Let_def by blast
  from one two three four not_modified(2) unsatisfiable(2) bad_gateway show ?thesis by blast
qed

text \<open>
  C1 as stated fails for a \<^verbatim>\<open>HEAD\<close>: a responder that derives its flag from the status it
  wrote answers the \<^verbatim>\<open>HEAD\<close> with 200, headers only and no body, and raises the flag;
  \<^verbatim>\<open>serveFile\<close> then observes the metric.
\<close>

theorem serveFile_metric_iff_dataSent_counterexample:
  "reqMethod head_request = ''HEAD''
   \<and> statusCode (writer (serveFile gateway fresh_writer head_request resolved_path
        (content_path ''photo.png'') (regular_file ''abc'') 1000)) = Some 200
   \<and> body (writer (serveFile gateway fresh_writer head_request resolved_path
        (content_path ''photo.png'') (regular_file ''abc'') 1000)) = []
   \<and> filter is_Observe (events (serveFile gateway fresh_writer head_request resolved_path
        (content_path ''photo.png'') (regular_file ''abc'') 1000)) = [Observe ''ipfs'' 700]"
  by (simp add: run_defs)

text \<open>
  C2, as amended. For a non-symlink entry whose name's extension has a non-empty mapping in
  the registry, the content type handed to the responder is the registry's value with the
  parameters of an HTML type stripped: \<^verbatim>\<open>text/html\<close> when the mapped value begins with
  \<^verbatim>\<open>text/html;\<close>, the mapped value itself otherwise. It is the same whatever bytes the
  file holds, the detector is not called, and the run does not depend on the detector or
  on the seek at all.
\<close>

theorem serveFile_extension_wins:
  assumes "Size f = Inr sz" and "\<not> isSymlink f"
    and "TypeByExtension i (Ext i (name_of i w r rp cp)) \<noteq> ''''"
  shows "handed_content_types (events (serveFile i w r rp cp f begin))
         = [Some [if prefix ''text/html;'' (TypeByExtension i (Ext i (name_of i w r rp cp)))
                  then ''text/html''
                  else TypeByExtension i (Ext i (name_of i w r rp cp))]]
       \<and> filter is_DetectReader (events (serveFile i w r rp cp f begin)) = []
       \<and> handed_content_types (events (serveFile i w r rp cp (f\<lparr>contents := bs\<rparr>) begin))
         = handed_content_types (events (serveFile i w r rp cp f begin))
       \<and> serveFile (i\<lparr>DetectReader := det, Seek := sk\<rparr>) w r rp cp f begin
           = serveFile i w r rp cp f begin"
proof -
  have "serveFile (i\<lparr>DetectReader := det, Seek := sk\<rparr>) w r rp cp f begin
          = serveFile i w r rp cp f begin"
    using assms
    by (simp add: serveFile_by_extension prep_defs serveFile_respond_def Let_def split_def)
  moreover have "Size (f\<lparr>contents := bs\<rparr>) = Inr sz" "\<not> isSymlink (f\<lparr>contents := bs\<rparr>)"
    using assms by (simp_all add: Size_def)
  ultimately show ?thesis using assms
    by (simp add: serveFile_by_extension respond_events handed_defs handed_append stripHTMLParams_def)
qed

text \<open>
  A JPEG named \<^verbatim>\<open>photo.png\<close> is served as \<^verbatim>\<open>image/png\<close>, and one named
  \<^verbatim>\<open>index.html\<close> as \<^verbatim>\<open>text/html\<close>.
\<close>

theorem serveFile_extension_wins_witness:
  "handed_content_types (events
       (serveFile gateway fresh_writer get_request resolved_path
          (content_path ''photo.png'') (regular_file jpeg_bytes) 1000)) = [Some [''image/png'']]
   \<and> handed_content_types (events
        (serveFile gateway fresh_writer get_request resolved_path
           (content_path ''index.html'') (regular_file jpeg_bytes) 1000)) = [Some [''text/html'']]
   \<and> sniff jpeg_bytes = ''image/jpeg''"
proof -
  have size: "Size (regular_file jpeg_bytes) = Inr 4" and regular: "\<not> isSymlink (regular_file jpeg_bytes)"
    by (simp_all add: concrete_defs)
  have png: "TypeByExtension gateway (Ext gateway (name_of gateway fresh_writer get_request
      resolved_path (content_path ''photo.png''))) = ''image/png''"
    and html: "TypeByExtension gateway (Ext gateway (name_of gateway fresh_writer get_request
      resolved_path (content_path ''index.html''))) = ''text/html; charset=utf-8''"
    by (simp_all add: prep_defs concrete_defs)
  have known: "TypeByExtension gateway (Ext gateway (name_of gateway fresh_writer get_request
      resolved_path (content_path ''photo.png''))) \<noteq> ''''"
    "TypeByExtension gateway (Ext gateway (name_of gateway fresh_writer get_request
      resolved_path (content_path ''index.html''))) \<noteq> ''''"
    by (simp_all add: png html)
  have "sniff jpeg_bytes = ''image/jpeg''"
    by (simp add: sniff_def jpeg_bytes_def)
  with serveFile_extension_wins [OF size regular known(1), of 1000]
    serveFile_extension_wins [OF size regular known(2), of 1000] png html
  show ?thesis by simp
qed

text \<open>
  C2 as stated fails for the entry of Go's built-in table for \<^verbatim>\<open>.html\<close>: the mapped
  value is \<^verbatim>\<open>text/html; charset=utf-8\<close>, and lines 74 to 76 turn it into \<^verbatim>\<open>text/html\<close>
  before the header is set.
\<close>

theorem serveFile_extension_wins_counterexample:
  "\<not> isSymlink (regular_file jpeg_bytes)
   \<and> name_of gateway fresh_writer get_request resolved_path (content_path ''index.html'') = ''index.html''
   \<and> TypeByExtension gateway (Ext gateway ''index.html'') = ''text/html; charset=utf-8''
   \<and> handed_content_types (events
        (serveFile gateway fresh_writer get_request resolved_path
           (content_path ''index.html'') (regular_file jpeg_bytes) 1000))
      \<noteq> [Some [TypeByExtension gateway (Ext gateway ''index.html'')]]"
  by (simp add: run_defs prep_defs)

text \<open>
  C3. For a symlink whose size is known, the content type handed to the responder is the
  literal \<^verbatim>\<open>inode/symlink\<close>; the run has no extension lookup, no sniffing and no seek, and
  it is the same run whatever \<^verbatim>\<open>path.Ext\<close>, the registry, the detector and the seek
  would do.
\<close>

theorem serveFile_symlink_type:
  assumes "Size f = Inr sz" and "isSymlink f"
  shows "handed_content_types (events (serveFile i w r rp cp f begin)) = [Some [''inode/symlink'']]
       \<and> filter is_TypeByExtension (events (serveFile i w r rp cp f begin)) = []
       \<and> filter is_DetectReader (events (serveFile i w r rp cp f begin)) = []
       \<and> filter is_Seek (events (serveFile i w r rp cp f begin)) = []
       \<and> serveFile (i\<lparr>Ext := ext, TypeByExtension := reg, DetectReader := det, Seek := sk\<rparr>)
            w r rp cp f begin = serveFile i w r rp cp f begin"
proof -
  have "serveFile (i\<lparr>Ext := ext, TypeByExtension := reg, DetectReader := det, Seek := sk\<rparr>)
          w r rp cp f begin = serveFile i w r rp cp f begin"
    using assms by (simp add: serveFile_symlink prep_defs serveFile_respond_def Let_def split_def)
  with assms show ?thesis
    by (simp add: serveFile_symlink respond_events handed_defs prelude_def)
qed

text \<open>A symlink named \<^verbatim>\<open>photo.png\<close> whose bytes carry the JPEG signature.\<close>

theorem serveFile_symlink_type_witness:
  "handed_content_types (events
       (serveFile gateway fresh_writer get_request resolved_path
          (content_path ''photo.png'') (symlink_file jpeg_bytes) 1000)) = [Some [''inode/symlink'']]
   \<and> registry (path_Ext ''photo.png'') = ''image/png''
   \<and> sniff jpeg_bytes = ''image/jpeg''"
proof -
  have size: "Size (symlink_file jpeg_bytes) = Inr 4" and link: "isSymlink (symlink_file jpeg_bytes)"
    by (simp_all add: concrete_defs)
  have "registry (path_Ext ''photo.png'') = ''image/png''" "sniff jpeg_bytes = ''image/jpeg''"
    by (simp_all add: concrete_defs)
  with serveFile_symlink_type [OF size link, of gateway fresh_writer get_request resolved_path
      "content_path ''photo.png''" 1000]
  show ?thesis by simp
qed

text \<open>
  C4, as amended. For a non-symlink entry whose type is resolved (by a non-empty extension
  lookup, or by a sniff followed by a successful seek back to the start), the
  \<^verbatim>\<open>Content-Type\<close> set on the writer before it is handed to the responder is exactly
  \<^verbatim>\<open>text/html\<close> if the resolved type begins with \<^verbatim>\<open>text/html;\<close>, and the resolved type
  unchanged otherwise. The response of \<^verbatim>\<open>serveFile\<close> is the writer as the responder gives
  it back, so this is the value sent whenever the responder leaves the header as it was
  handed over.
\<close>

theorem serveFile_html_parameters_stripped:
  assumes "Size f = Inr sz" and "\<not> isSymlink f"
    and "(TypeByExtension i (Ext i (name_of i w r rp cp)) \<noteq> ''''
            \<and> resolvedType = TypeByExtension i (Ext i (name_of i w r rp cp)))
       \<or> (TypeByExtension i (Ext i (name_of i w r rp cp)) = ''''
            \<and> fst (DetectReader i (new_lazySeeker sz f)) = Inr resolvedType
            \<and> fst (Seek i (snd (DetectReader i (new_lazySeeker sz f))) 0 SeekStart) = Inr off)"
  shows "handed_content_types (events (serveFile i w r rp cp f begin))
         = [Some [if prefix ''text/html;'' resolvedType then ''text/html'' else resolvedType]]
       \<and> returned_writers i r (events (serveFile i w r rp cp f begin))
         = [writer (serveFile i w r rp cp f begin)]
       \<and> (Content_Type_kept i r (events (serveFile i w r rp cp f begin)) \<longrightarrow>
            header (writer (serveFile i w r rp cp f begin)) ''Content-Type''
              = Some [if prefix ''text/html;'' resolvedType then ''text/html'' else resolvedType])"
  using assms(3)
proof (elim disjE conjE)
  assume "TypeByExtension i (Ext i (name_of i w r rp cp)) \<noteq> ''''"
    and "resolvedType = TypeByExtension i (Ext i (name_of i w r rp cp))"
  with assms(1,2) show ?thesis
    by (simp add: serveFile_by_extension respond_events respond_writer handed_defs
          returned_defs stripHTMLParams_def handed_append)
next
  assume "TypeByExtension i (Ext i (name_of i w r rp cp)) = ''''"
    and "fst (DetectReader i (new_lazySeeker sz f)) = Inr resolvedType"
    and "fst (Seek i (snd (DetectReader i (new_lazySeeker sz f))) 0 SeekStart) = Inr off"
  with assms(1,2) show ?thesis
    by (simp add: serveFile_sniffed respond_events respond_writer handed_defs
          returned_defs stripHTMLParams_def handed_append)
qed

text \<open>
  An extensionless HTML page is sniffed as \<^verbatim>\<open>text/html; charset=utf-8\<close> and sent as
  \<^verbatim>\<open>text/html\<close>; \<^verbatim>\<open>image/png\<close> from the registry is sent unchanged.
\<close>

theorem serveFile_html_parameters_stripped_witness:
  "sniff ''<html><p>hi</p></html>'' = ''text/html; charset=utf-8''
   \<and> handed_content_types (events
        (serveFile gateway fresh_writer get_request resolved_path
           (content_path ''page'') (regular_file ''<html><p>hi</p></html>'') 1000))
       = [Some [''text/html'']]
   \<and> header (writer
        (serveFile gateway fresh_writer get_request resolved_path
           (content_path ''page'') (regular_file ''<html><p>hi</p></html>'') 1000))
        ''Content-Type'' = Some [''text/html'']
   \<and> header (writer
        (serveFile gateway fresh_writer get_request resolved_path
           (content_path ''photo.png'') (regular_file ''<html><p>hi</p></html>'') 1000))
        ''Content-Type'' = Some [''image/png'']"
proof -
  let ?page = "regular_file ''<html><p>hi</p></html>''"
  let ?name_page = "name_of gateway fresh_writer get_request resolved_path (content_path ''page'')"
  let ?name_png =
    "name_of gateway fresh_writer get_request resolved_path (content_path ''photo.png'')"
  have size: "Size ?page = Inr 22" and regular: "\<not> isSymlink ?page"
    by (simp_all add: concrete_defs)
  have sniffed: "sniff ''<html><p>hi</p></html>'' = ''text/html; charset=utf-8''"
    by (simp add: sniff_def)
  have by_content:
    "(TypeByExtension gateway (Ext gateway ?name_page) \<noteq> ''''
        \<and> ''text/html; charset=utf-8'' = TypeByExtension gateway (Ext gateway ?name_page))
     \<or> (TypeByExtension gateway (Ext gateway ?name_page) = ''''
        \<and> fst (DetectReader gateway (new_lazySeeker 22 ?page)) = Inr ''text/html; charset=utf-8''
        \<and> fst (Seek gateway (snd (DetectReader gateway (new_lazySeeker 22 ?page))) 0 SeekStart)
            = Inr 0)"
    by (simp add: prep_defs concrete_defs Let_def)
  have by_name:
    "(TypeByExtension gateway (Ext gateway ?name_png) \<noteq> ''''
        \<and> ''image/png'' = TypeByExtension gateway (Ext gateway ?name_png))
     \<or> (TypeByExtension gateway (Ext gateway ?name_png) = ''''
        \<and> fst (DetectReader gateway (new_lazySeeker 22 ?page)) = Inr ''image/png''
        \<and> fst (Seek gateway (snd (DetectReader gateway (new_lazySeeker 22 ?page))) 0 SeekStart)
            = Inr 0)"
    by (simp add: prep_defs concrete_defs Let_def)
  have kept: "Content_Type_kept gateway get_request (events
      (serveFile gateway fresh_writer get_request resolved_path (content_path ''page'') ?page 1000))"
    "Content_Type_kept gateway get_request (events
      (serveFile gateway fresh_writer get_request resolved_path (content_path ''photo.png'') ?page
         1000))"
    by (simp_all add: run_defs returned_defs)
  from serveFile_html_parameters_stripped [OF size regular by_content, of 1000]
    serveFile_html_parameters_stripped [OF size regular by_name, of 1000] sniffed kept
  show ?thesis by simp
qed

text \<open>
  C4 as stated fails where the responder does not send the header it was handed: for
  \<^verbatim>\<open>index.html\<close>, whose registry type begins with \<^verbatim>\<open>text/html;\<close>, a conditional request
  is answered 304 without \<^verbatim>\<open>Content-Type\<close>, although the writer was handed over with
  \<^verbatim>\<open>text/html\<close> set.
\<close>

theorem serveFile_html_parameters_stripped_counterexample:
  "\<not> isSymlink (regular_file ''<html><p>hi</p></html>'')
   \<and> prefix ''text/html;'' (TypeByExtension gateway (Ext gateway
        (name_of gateway fresh_writer conditional_request resolved_path
           (content_path ''index.html''))))
   \<and> handed_content_types (events
        (serveFile gateway fresh_writer conditional_request resolved_path
           (content_path ''index.html'') (regular_file ''<html><p>hi</p></html>'') 1000))
       = [Some [''text/html'']]
   \<and> statusCode (writer
        (serveFile gateway fresh_writer conditional_request resolved_path
           (content_path ''index.html'') (regular_file ''<html><p>hi</p></html>'') 1000))
       = Some 304
   \<and> header (writer
        (serveFile gateway fresh_writer conditional_request resolved_path
           (content_path ''index.html'') (regular_file ''<html><p>hi</p></html>'') 1000))
        ''Content-Type'' \<noteq> Some [''text/html'']"
  by (simp add: run_defs prep_defs)

text \<open>
  C5. When the content source fails to report its size, \<^verbatim>\<open>serveFile\<close> answers a writer that
  has not yet sent a status with 502 Bad Gateway and the message of line 35, and stops:
  after the size query the only events are the error response and the end of the span, so
  no adapter is constructed, no content type is resolved (no extension lookup, no
  sniffing, no seek), the responder is not invoked and no metric is observed.
\<close>

theorem serveFile_unknown_size_502:
  assumes "Size f = Inl err" and "statusCode w = None"
  shows "statusCode (writer (serveFile i w r rp cp f begin)) = Some 502
       \<and> body (writer (serveFile i w r rp cp f begin))
           = body w @ ''cannot serve files with unknown sizes'' @ [CHR 0x0A]
       \<and> events (serveFile i w r rp cp f begin)
           = [Span_Start (pathString rp), Call_addCacheControlHeaders,
              Call_addContentDispositionHeader, Call_Size,
              Call_http_Error ''cannot serve files with unknown sizes'' 502, Span_End]
       \<and> filter is_New_lazySeeker (events (serveFile i w r rp cp f begin)) = []
       \<and> filter is_TypeByExtension (events (serveFile i w r rp cp f begin)) = []
       \<and> filter is_DetectReader (events (serveFile i w r rp cp f begin)) = []
       \<and> filter is_Seek (events (serveFile i w r rp cp f begin)) = []
       \<and> handed (events (serveFile i w r rp cp f begin)) = []
       \<and> filter is_Observe (events (serveFile i w r rp cp f begin)) = []"
  using assms
  by (simp add: serveFile_size_error prep_defs http_Error_def WriteHeader_def Header_Set_def)

theorem serveFile_unknown_size_502_witness:
  "Size (unsized_file ''abc'') = Inl (Err ''unknown size'')
   \<and> statusCode fresh_writer = None
   \<and> statusCode (writer (serveFile gateway fresh_writer get_request resolved_path
         (content_path ''photo.png'') (unsized_file ''abc'') 1000)) = Some 502
   \<and> body (writer (serveFile gateway fresh_writer get_request resolved_path
         (content_path ''photo.png'') (unsized_file ''abc'') 1000))
       = ''cannot serve files with unknown sizes'' @ [CHR 0x0A]
   \<and> filter is_Observe (events (serveFile gateway fresh_writer get_request resolved_path
         (content_path ''photo.png'') (unsized_file ''abc'') 1000)) = []"
proof -
  have size: "Size (unsized_file ''abc'') = Inl (Err ''unknown size'')"
    by (simp add: concrete_defs)
  have fresh: "statusCode fresh_writer = None"
    by (simp add: fresh_writer_def)
  have empty: "body fresh_writer = []"
    by (simp add: fresh_writer_def)
  from serveFile_unknown_size_502 [OF size fresh, of gateway get_request resolved_path
      "content_path ''photo.png''" 1000] size fresh empty
  show ?thesis by simp
qed

text \<open>
  C6. For a non-symlink entry of known size whose extension is not in the registry, if the
  detector fails, or it succeeds and the seek back to offset 0 fails, \<^verbatim>\<open>serveFile\<close>
  answers a writer that has not yet sent a status with 500 Internal Server Error and the
  message of line 59 or line 66, and stops: the responder is not invoked and no metric is
  observed.
\<close>

theorem serveFile_detection_failure_500:
  assumes "Size f = Inr sz" and "\<not> isSymlink f"
    and "TypeByExtension i (Ext i (name_of i w r rp cp)) = ''''"
    and "statusCode w = None"
    and "(fst (DetectReader i (new_lazySeeker sz f)) = Inl err
            \<and> msg = ''cannot detect content-type: '' @ Error err)
       \<or> (fst (DetectReader i (new_lazySeeker sz f)) = Inr mimeType
            \<and> fst (Seek i (snd (DetectReader i (new_lazySeeker sz f))) 0 SeekStart) = Inl err
            \<and> msg = ''seeker can't seek'')"
  shows "statusCode (writer (serveFile i w r rp cp f begin)) = Some 500
       \<and> body (writer (serveFile i w r rp cp f begin)) = body w @ msg @ [CHR 0x0A]
       \<and> filter is_http_Error (events (serveFile i w r rp cp f begin)) = [Call_http_Error msg 500]
       \<and> last (events (serveFile i w r rp cp f begin)) = Span_End
       \<and> handed (events (serveFile i w r rp cp f begin)) = []
       \<and> filter is_Observe (events (serveFile i w r rp cp f begin)) = []"
  using assms(5)
proof (elim disjE conjE)
  assume "fst (DetectReader i (new_lazySeeker sz f)) = Inl err"
    and "msg = ''cannot detect content-type: '' @ Error err"
  with assms(1-4) show ?thesis
    by (simp add: serveFile_detect_error http_Error_status http_Error_body prelude_def)
next
  assume "fst (DetectReader i (new_lazySeeker sz f)) = Inr mimeType"
    and "fst (Seek i (snd (DetectReader i (new_lazySeeker sz f))) 0 SeekStart) = Inl err"
    and "msg = ''seeker can't seek''"
  with assms(1-4) show ?thesis
    by (simp add: serveFile_seek_error http_Error_status http_Error_body prelude_def)
qed

text \<open>The concrete gateway with a detector that fails, and with a seek that fails.\<close>

theorem serveFile_detection_failure_500_witness:
  "statusCode (writer (serveFile (gateway\<lparr>DetectReader := failing_DetectReader\<rparr>) fresh_writer
       get_request resolved_path (content_path ''photo'') (regular_file ''abc'') 1000)) = Some 500
   \<and> body (writer (serveFile (gateway\<lparr>DetectReader := failing_DetectReader\<rparr>) fresh_writer
       get_request resolved_path (content_path ''photo'') (regular_file ''abc'') 1000))
       = ''cannot detect content-type: unexpected EOF'' @ [CHR 0x0A]
   \<and> statusCode (writer (serveFile (gateway\<lparr>Seek := failing_Seek\<rparr>) fresh_writer
       get_request resolved_path (content_path ''photo'') (regular_file ''abc'') 1000)) = Some 500
   \<and> body (writer (serveFile (gateway\<lparr>Seek := failing_Seek\<rparr>) fresh_writer
       get_request resolved_path (content_path ''photo'') (regular_file ''abc'') 1000))
       = ''seeker can't seek'' @ [CHR 0x0A]
   \<and> filter is_Observe (events (serveFile (gateway\<lparr>Seek := failing_Seek\<rparr>) fresh_writer
       get_request resolved_path (content_path ''photo'') (regular_file ''abc'') 1000)) = []"
proof -
  let ?d = "gateway\<lparr>DetectReader := failing_DetectReader\<rparr>"
  let ?s = "gateway\<lparr>Seek := failing_Seek\<rparr>"
  have size: "Size (regular_file ''abc'') = Inr 3" and regular: "\<not> isSymlink (regular_file ''abc'')"
    by (simp_all add: concrete_defs)
  have fresh: "statusCode fresh_writer = None" and empty: "body fresh_writer = []"
    by (simp_all add: fresh_writer_def)
  have unknown_d: "TypeByExtension ?d (Ext ?d (name_of ?d fresh_writer get_request resolved_path
      (content_path ''photo''))) = ''''"
    by (simp add: prep_defs concrete_defs)
  have unknown_s: "TypeByExtension ?s (Ext ?s (name_of ?s fresh_writer get_request resolved_path
      (content_path ''photo''))) = ''''"
    by (simp add: prep_defs concrete_defs)
  have read_fails: "fst (DetectReader ?d (new_lazySeeker 3 (regular_file ''abc'')))
      = Inl (Err ''unexpected EOF'')"
    by (simp add: concrete_defs)
  have sniffs: "fst (DetectReader ?s (new_lazySeeker 3 (regular_file ''abc'')))
      = Inr ''application/octet-stream''"
    by (simp add: concrete_defs Let_def)
  have seek_fails: "fst (Seek ?s (snd (DetectReader ?s (new_lazySeeker 3 (regular_file ''abc''))))
      0 SeekStart) = Inl (Err ''closed'')"
    by (simp add: concrete_defs)
  from read_fails
  have first: "(fst (DetectReader ?d (new_lazySeeker 3 (regular_file ''abc''))) = Inl (Err ''unexpected EOF'')
            \<and> ''cannot detect content-type: unexpected EOF'' = ''cannot detect content-type: '' @ Error (Err ''unexpected EOF''))
       \<or> (fst (DetectReader ?d (new_lazySeeker 3 (regular_file ''abc''))) = Inr ''application/octet-stream''
            \<and> fst (Seek ?d (snd (DetectReader ?d (new_lazySeeker 3 (regular_file ''abc'')))) 0 SeekStart) = Inl (Err ''unexpected EOF'')
            \<and> ''cannot detect content-type: unexpected EOF'' = ''seeker can't seek'')"
    by simp
  from sniffs seek_fails
  have second: "(fst (DetectReader ?s (new_lazySeeker 3 (regular_file ''abc''))) = Inl (Err ''closed'')
            \<and> ''seeker can't seek'' = ''cannot detect content-type: '' @ Error (Err ''closed''))
       \<or> (fst (DetectReader ?s (new_lazySeeker 3 (regular_file ''abc''))) = Inr ''application/octet-stream''
            \<and> fst (Seek ?s (snd (DetectReader ?s (new_lazySeeker 3 (regular_file ''abc'')))) 0 SeekStart) = Inl (Err ''closed'')
            \<and> ''seeker can't seek'' = ''seeker can't seek'')"
    by simp
  from serveFile_detection_failure_500 [OF size regular unknown_d fresh first, of 1000]
    serveFile_detection_failure_500 [OF size regular unknown_s fresh second, of 1000] empty
  show ?thesis by simp
qed

section \<open>Property of the adapter\<close>

text \<open>
  C7. Take the adapter constructed over an unread source whose size is the length of its
  content, in any state it reaches by seeks and reads. For every seek whose target lies in
  [0, size] the seek succeeds and returns the target, the read that follows returns the
  bytes of the content from that offset on (as many as asked for, or as remain), and the
  read after that continues where the first one stopped. The state before the seek is
  arbitrary, so the target may lie behind the current position.
\<close>

theorem lazySeeker_read_after_seek:
  assumes known: "sz = int (length (contents f))" and unread: "cursor f = 0"
    and reached: "s = perform_all epsilon (new_lazySeeker sz f) ops"
    and target: "target = seek_target s offset origin"
    and valid: "0 \<le> target" "target \<le> sz"
  shows "fst (lazySeeker_Seek epsilon s offset origin) = Inr target
       \<and> fst (lazySeeker_Read (snd (lazySeeker_Seek epsilon s offset origin)) n)
           = take n (drop (nat target) (contents f))
       \<and> fst (lazySeeker_Read
                (snd (lazySeeker_Read (snd (lazySeeker_Seek epsilon s offset origin)) n)) m)
           = take m (drop (nat target + n) (contents f))"
proof -
  let ?s' = "snd (lazySeeker_Seek epsilon s offset origin)"
  have new: "in_step (new_lazySeeker sz f)"
    using known unread by (rule in_step_new)
  from perform_all_keeps [OF new, of epsilon ops] reached
  have s: "in_step s" "contents (reader s) = contents f" "size_l s = sz"
    by (simp_all add: new_lazySeeker_def)
  from valid target s(3)
  have range: "0 \<le> seek_target s offset origin" "seek_target s offset origin \<le> size_l s"
    by simp_all
  from Seek_in_range [OF range, of epsilon] target
  have seek: "fst (lazySeeker_Seek epsilon s offset origin) = Inr target" "position ?s' = target"
    by simp_all
  have s': "in_step ?s'" "contents (reader ?s') = contents f" "size_l ?s' = sz"
    using s by (simp_all add: in_step_Seek Seek_contents Seek_size)
  have first: "fst (lazySeeker_Read ?s' n) = take n (drop (nat target) (contents f))"
    using Read_in_step [OF s'(1), of n] seek(2) s'(2) by simp
  let ?s'' = "snd (lazySeeker_Read ?s' n)"
  have s'': "in_step ?s''" "contents (reader ?s'') = contents f"
    using s' by (simp_all add: in_step_Read Read_contents)
  have pos: "position ?s'' = target + int (min n (nat (sz - target)))"
    using Read_position [OF s'(1), of n] seek(2) s'(3) valid by simp
  have "fst (lazySeeker_Read ?s'' m) = take m (drop (nat (position ?s'')) (contents f))"
    using Read_in_step [OF s''(1), of m] s''(2) by simp
  also have "\<dots> = take m (drop (nat target + n) (contents f))"
  proof (cases "n \<le> nat (sz - target)")
    case True
    with pos valid have "nat (position ?s'') = nat target + n"
      by (simp add: min_def nat_add_distrib)
    then show ?thesis by simp
  next
    case False
    with pos valid known have "nat (position ?s'') = length (contents f)" "length (contents f) \<le> nat target + n"
      by (simp_all add: min_def)
    then show ?thesis by simp
  qed
  finally show ?thesis using seek(1) first by simp
qed

text \<open>
  After reading five bytes of \<^verbatim>\<open>hello world\<close>, a seek back to offset 2 and two reads.
\<close>

theorem lazySeeker_read_after_seek_witness:
  "position (perform_all 0 (new_lazySeeker 11 (regular_file ''hello world'')) [Do_Read 5]) = 5
   \<and> fst (lazySeeker_Seek 0
            (perform_all 0 (new_lazySeeker 11 (regular_file ''hello world'')) [Do_Read 5])
            2 SeekStart) = Inr 2
   \<and> fst (lazySeeker_Read
            (snd (lazySeeker_Seek 0
                    (perform_all 0 (new_lazySeeker 11 (regular_file ''hello world'')) [Do_Read 5])
                    2 SeekStart)) 3) = ''llo''
   \<and> fst (lazySeeker_Read
            (snd (lazySeeker_Read
               (snd (lazySeeker_Seek 0
                    (perform_all 0 (new_lazySeeker 11 (regular_file ''hello world'')) [Do_Read 5])
                    2 SeekStart)) 3)) 20) = '' world''"
proof -
  let ?f = "regular_file ''hello world''"
  let ?s = "perform_all 0 (new_lazySeeker 11 ?f) [Do_Read 5]"
  have known: "(11::int) = int (length (contents ?f))" and unread: "cursor ?f = 0"
    by (simp_all add: regular_file_def)
  have ahead: "position ?s = 5"
    by (simp add: perform_all_def concrete_defs Let_def)
  have target: "(2::int) = seek_target ?s 2 SeekStart"
    by (simp add: seek_target_def)
  have bytes: "contents ?f = ''hello world''"
    by (simp add: regular_file_def)
  from lazySeeker_read_after_seek [OF known unread refl target, of 3 20] ahead bytes
  show ?thesis by simp
qed

section \<open>Properties of serveFile, continued\<close>





text \<open>
  C10. Every run starts with the span, the two header collaborators and the size query, in
  this order. On every error response (502 for an unknown size, 500 for a failed detection
  or seek) the headers of the response are the headers the collaborators left on the
  writer, with the two headers \<^verbatim>\<open>http.Error\<close> itself sets (\<^verbatim>\<open>Content-Type\<close> and
  \<^verbatim>\<open>X-Content-Type-Options\<close>): every other header has the value the collaborators gave it.
\<close>

theorem serveFile_errors_keep_collaborator_headers:
  "take 4 (events (serveFile i w r rp cp f begin))
     = [Span_Start (pathString rp), Call_addCacheControlHeaders,
        Call_addContentDispositionHeader, Call_Size]
   \<and> (list_ex is_http_Error (events (serveFile i w r rp cp f begin)) \<longrightarrow>
        header (writer (serveFile i w r rp cp f begin))
          = (header (prepared i w r rp cp))
              (''Content-Type'' \<mapsto> [''text/plain; charset=utf-8''],
               ''X-Content-Type-Options'' \<mapsto> [''nosniff''])
        \<and> (\<forall>k. k \<noteq> ''Content-Type'' \<and> k \<noteq> ''X-Content-Type-Options'' \<longrightarrow>
               header (writer (serveFile i w r rp cp f begin)) k
                 = header (prepared i w r rp cp) k)
        \<and> (filter is_http_Error (events (serveFile i w r rp cp f begin))
              = [Call_http_Error ''cannot serve files with unknown sizes'' 502]
            \<or> (\<exists>msg. filter is_http_Error (events (serveFile i w r rp cp f begin))
                        = [Call_http_Error msg 500])))"
proof (cases rule: serveFile_paths [where f = f and i = i and w = w and r = r and rp = rp and cp = cp])
  case (size_error err)
  then show ?thesis by (simp add: serveFile_size_error http_Error_header prelude_def)
next
  case (symlink sz)
  then show ?thesis by (simp add: serveFile_symlink respond_events handed_defs prelude_def)
next
  case (by_extension sz)
  then show ?thesis by (simp add: serveFile_by_extension respond_events handed_defs prelude_def)
next
  case (detect_error sz err)
  then show ?thesis by (simp add: serveFile_detect_error http_Error_header prelude_def)
next
  case (seek_error sz mimeType err)
  then show ?thesis by (simp add: serveFile_seek_error http_Error_header prelude_def)
next
  case (sniffed sz mimeType off)
  then show ?thesis by (simp add: serveFile_sniffed respond_events handed_defs prelude_def)
qed

text \<open>
  The 502 response of the concrete gateway carries the \<^verbatim>\<open>Etag\<close> and \<^verbatim>\<open>Cache-Control\<close>
  headers set before the size query.
\<close>

theorem serveFile_errors_keep_collaborator_headers_witness:
  "list_ex is_http_Error (events (serveFile gateway fresh_writer get_request resolved_path
      (content_path ''photo.png'') (unsized_file ''abc'') 1000))
   \<and> header (writer (serveFile gateway fresh_writer get_request resolved_path
      (content_path ''photo.png'') (unsized_file ''abc'') 1000)) ''Etag'' = Some [''QmBar'']
   \<and> header (writer (serveFile gateway fresh_writer get_request resolved_path
      (content_path ''photo.png'') (unsized_file ''abc'') 1000)) ''Cache-Control''
       = Some [''public, max-age=29030400, immutable'']"
proof -
  have failed: "list_ex is_http_Error (events (serveFile gateway fresh_writer get_request
      resolved_path (content_path ''photo.png'') (unsized_file ''abc'') 1000))"
    by (simp add: run_defs)
  have set_before: "header (prepared gateway fresh_writer get_request resolved_path
      (content_path ''photo.png'')) ''Etag'' = Some [''QmBar'']"
    "header (prepared gateway fresh_writer get_request resolved_path
      (content_path ''photo.png'')) ''Cache-Control'' = Some [''public, max-age=29030400, immutable'']"
    by (simp_all add: prep_defs concrete_defs)
  from serveFile_errors_keep_collaborator_headers [of gateway fresh_writer get_request
      resolved_path "content_path ''photo.png''" "unsized_file ''abc''" 1000] failed
  have "\<forall>k. k \<noteq> ''Content-Type'' \<and> k \<noteq> ''X-Content-Type-Options'' \<longrightarrow>
      header (writer (serveFile gateway fresh_writer get_request resolved_path
        (content_path ''photo.png'') (unsized_file ''abc'') 1000)) k
      = header (prepared gateway fresh_writer get_request resolved_path
          (content_path ''photo.png'')) k"
    by blast
  then have "header (writer (serveFile gateway fresh_writer get_request resolved_path
        (content_path ''photo.png'') (unsized_file ''abc'') 1000)) ''Etag''
      = header (prepared gateway fresh_writer get_request resolved_path
          (content_path ''photo.png'')) ''Etag''"
    and "header (writer (serveFile gateway fresh_writer get_request resolved_path
        (content_path ''photo.png'') (unsized_file ''abc'') 1000)) ''Cache-Control''
      = header (prepared gateway fresh_writer get_request resolved_path
          (content_path ''photo.png'')) ''Cache-Control''"
    by simp_all
  with failed set_before show ?thesis by simp
qed

end
